theory Spec2Isabelle
  imports Main
begin

section \<open>The declarations the visitors inspect\<close>

text \<open>
  The tools walk a C++ syntax tree and, for each declaration, run a chain of
  guards that either return silently or report a remark.  The tree itself
  belongs to the compiler front end; a declaration is modelled by the answers
  it gives to the queries the visitors make, one field per query, named after
  the query.
\<close>

text \<open>A raw source location is an offset; \<open>getLocWithOffset\<close> moves it.\<close>

type_synonym SourceLocation = int

definition getLocWithOffset :: "SourceLocation \<Rightarrow> int \<Rightarrow> SourceLocation" where
  "getLocWithOffset l off = l + off"

text \<open>
  The expansion location of a declaration's begin location, as
  \<open>get_location\<close> returns it, together with what the source manager
  answers about it.
\<close>

record FullSourceLoc =
  getFilename :: string
  isInSystemHeader :: bool
  getExpansionLineNumber :: nat
  getExpansionColumnNumber :: nat

datatype AccessSpecifier = AS_public | AS_protected | AS_private | AS_none

datatype FriendObjectKind = FOK_None | FOK_Declared | FOK_Undeclared

datatype TemplatedKind =
    TK_NonTemplate
  | TK_FunctionTemplate
  | TK_MemberSpecialization
  | TK_FunctionTemplateSpecialization
  | TK_DependentFunctionTemplateSpecialization
  | TK_DependentNonTemplate

datatype TemplateSpecializationKind =
    TSK_Undeclared
  | TSK_ImplicitInstantiation
  | TSK_ExplicitSpecialization
  | TSK_ExplicitInstantiationDeclaration
  | TSK_ExplicitInstantiationDefinition

datatype TagTypeKind = TTK_Struct | TTK_Interface | TTK_Union | TTK_Class | TTK_Enum

text \<open>What every declaration answers: where it is, its name, its attributes.\<close>

record Decl =
  location :: FullSourceLoc
  getBeginLoc :: SourceLocation
  getNameAsString :: string
  getQualifiedNameAsString :: string
  hasDLLExportAttr :: bool
  hasDLLImportAttr :: bool
  hasVisibilityAttr :: bool

text \<open>The part of a method that a free function does not have.\<close>

record CXXMethodDecl =
  getAccess :: AccessSpecifier
  isPure :: bool

text \<open>
  A function declaration.  \<open>dyn_cast_CXXMethodDecl\<close> is \<open>None\<close> for a
  free function and holds the method part for a member function.
  \<open>doesThisDeclarationHaveABody\<close> speaks of this declaration,
  \<open>hasBody\<close> of any redeclaration of the function.
  \<open>isa_FriendDecl\<close> is the answer to \<open>isa<FriendDecl>\<close>, kept as a
  field although the front end never gives a function declaration that class
  (the friend test is expected to fail for that reason).
\<close>

record FunctionDecl = Decl +
  isDependentContext :: bool
  doesThisDeclarationHaveABody :: bool
  hasBody :: bool
  isa_FriendDecl :: bool
  getFriendObjectKind :: FriendObjectKind
  isDeleted :: bool
  isDefaulted :: bool
  dyn_cast_CXXMethodDecl :: "CXXMethodDecl option"
  getTemplatedKind :: TemplatedKind
  getInnerLocStart :: SourceLocation

record VarDecl = Decl +
  hasExternalStorage :: bool

text \<open>
  A class, struct or union.  \<open>parent_isa_RecordDecl\<close> says that the
  enclosing context is itself a record; \<open>getIncludeLoc_isInvalid\<close> says
  that the file holding the begin location was not reached by an include.
\<close>

record CXXRecordDecl = Decl +
  isCompleteDefinition :: bool
  parent_isa_RecordDecl :: bool
  getTagKind :: TagTypeKind
  getIncludeLoc_isInvalid :: bool
  getTemplateSpecializationKind :: TemplateSpecializationKind

record ClassTemplateSpecializationDecl = CXXRecordDecl +
  getSpecializedTemplate_isStruct :: bool
  getExternLoc :: SourceLocation

definition isStruct :: "'a CXXRecordDecl_scheme \<Rightarrow> bool" where
  "isStruct CD = (getTagKind CD = TTK_Struct)"

definition isUnion :: "'a CXXRecordDecl_scheme \<Rightarrow> bool" where
  "isUnion CD = (getTagKind CD = TTK_Union)"

section \<open>Remarks and fix-its\<close>

datatype FixItHint = CreateInsertion SourceLocation string

text \<open>
  A remark carries the location it is reported at and the name of the
  declaration; an unexported public interface also carries its fix-it.
\<close>

datatype diagnostic =
    unexported_public_interface FullSourceLoc string FixItHint
  | exported_private_interface FullSourceLoc string

section \<open>Searching a file name\<close>

text \<open>
  \<open>StringRef_find s needle\<close> is the index of the first occurrence of
  \<open>needle\<close> in \<open>s\<close>, and \<open>None\<close> stands for \<open>npos\<close>.
\<close>

primrec starts_with :: "string \<Rightarrow> string \<Rightarrow> bool" where
  "starts_with [] needle = (needle = [])"
| "starts_with (c # cs) needle =
     (case needle of [] \<Rightarrow> True | n # ns \<Rightarrow> c = n \<and> starts_with cs ns)"

primrec StringRef_find :: "string \<Rightarrow> string \<Rightarrow> nat option" where
  "StringRef_find [] needle = (if needle = [] then Some 0 else None)"
| "StringRef_find (c # cs) needle =
     (if starts_with (c # cs) needle then Some 0
      else map_option Suc (StringRef_find cs needle))"

section \<open>The ignore list\<close>

text \<open>A \<open>std::set\<close> of strings, with the membership test the tools define.\<close>

definition contains :: "string set \<Rightarrow> string \<Rightarrow> bool" where
  "contains s key = (key \<in> s)"

definition kIgnoredFunctions :: "string set" where
  "kIgnoredFunctions =
     {''_BitScanForward'', ''_BitScanForward64'', ''_BitScanReverse'',
      ''_BitScanReverse64'', ''__builtin_strlen''}"

section \<open>The interface scanner with class annotation (first visitor of idt.cc)\<close>

text \<open>
  The options \<open>export_macro\<close> and \<open>annotateClasses\<close> are global in the
  source and parameters here.  Every visitor returns the remarks it reports,
  in order; returning without a remark is the empty list.
\<close>

definition idt_VisitFunctionDecl ::
  "string \<Rightarrow> bool \<Rightarrow> FunctionDecl \<Rightarrow> diagnostic list" where
  "idt_VisitFunctionDecl export_macro annotateClasses FD =
     (let loc = location FD;
          filename = getFilename loc;
          annotated_or_later =
            (if hasDLLExportAttr FD \<or> hasDLLImportAttr FD \<or> hasVisibilityAttr FD then []
             else if contains kIgnoredFunctions (getNameAsString FD) then []
             else
               let insertion_point =
                     (if getTemplatedKind FD = TK_NonTemplate then getBeginLoc FD
                      else getInnerLocStart FD)
               in [unexported_public_interface loc (getNameAsString FD)
                     (CreateInsertion insertion_point (export_macro @ '' ''))])
      in
      if StringRef_find filename ''/lib/'' \<noteq> None \<or>
         StringRef_find filename ''/tools/'' \<noteq> None \<or>
         StringRef_find filename ''.def'' \<noteq> None then []
      else if isInSystemHeader loc then []
      else if isDependentContext FD then []
      else if doesThisDeclarationHaveABody FD then []
      else if isa_FriendDecl FD then []
      else if getFriendObjectKind FD \<noteq> FOK_None then []
      else if isDeleted FD \<or> isDefaulted FD then []
      else
        (case dyn_cast_CXXMethodDecl FD of
           Some MD \<Rightarrow>
             if annotateClasses then []
             else if getAccess MD = AS_private then
               (if hasDLLExportAttr FD
                then [exported_private_interface loc (getNameAsString FD)]
                else [])
             else if isPure MD then []
             else annotated_or_later
         | None \<Rightarrow> annotated_or_later))"

definition idt_VisitClassTemplateSpecializationDecl ::
  "string \<Rightarrow> ClassTemplateSpecializationDecl \<Rightarrow> diagnostic list" where
  "idt_VisitClassTemplateSpecializationDecl export_macro CTSD =
     (let loc = location CTSD;
          filename = getFilename loc
      in
      if StringRef_find filename ''/lib/'' \<noteq> None \<or>
         StringRef_find filename ''/tools/'' \<noteq> None \<or>
         StringRef_find filename ''.def'' \<noteq> None then []
      else if hasDLLExportAttr CTSD \<or> hasDLLImportAttr CTSD \<or> hasVisibilityAttr CTSD
        then []
      else
        let offset = (if getSpecializedTemplate_isStruct CTSD then 7 else 6 :: int);
            insertion_point = getExternLoc CTSD
        in [unexported_public_interface loc (getNameAsString CTSD)
              (CreateInsertion insertion_point (export_macro @ '' ''))])"

definition idt_VisitVarDecl :: "string \<Rightarrow> VarDecl \<Rightarrow> diagnostic list" where
  "idt_VisitVarDecl export_macro VD =
     (let loc = location VD;
          filename = getFilename loc
      in
      if StringRef_find filename ''/lib/'' \<noteq> None \<or>
         StringRef_find filename ''/tools/'' \<noteq> None \<or>
         StringRef_find filename ''.def'' \<noteq> None then []
      else if hasDLLExportAttr VD \<or> hasDLLImportAttr VD \<or> hasVisibilityAttr VD then []
      else if \<not> hasExternalStorage VD then []
      else
        let insertion_point = getBeginLoc VD
        in [unexported_public_interface loc (getNameAsString VD)
              (CreateInsertion insertion_point (export_macro @ '' ''))])"

definition idt_VisitCXXRecordDecl ::
  "string \<Rightarrow> bool \<Rightarrow> CXXRecordDecl \<Rightarrow> diagnostic list" where
  "idt_VisitCXXRecordDecl export_macro annotateClasses CD =
     (let loc = location CD;
          filename = getFilename loc
      in
      if \<not> annotateClasses then []
      else if getNameAsString CD = ''LLVM_ABI'' then []
      else if StringRef_find filename ''/lib/'' \<noteq> None \<or>
         StringRef_find filename ''/tools/'' \<noteq> None \<or>
         StringRef_find filename ''.def'' \<noteq> None then []
      else if isInSystemHeader loc then []
      else if \<not> isCompleteDefinition CD then []
      else if parent_isa_RecordDecl CD then []
      else if hasDLLExportAttr CD \<or> hasDLLImportAttr CD \<or> hasVisibilityAttr CD then []
      else if isUnion CD then []
      else if getIncludeLoc_isInvalid CD then []
      else if getTemplateSpecializationKind CD = TSK_ExplicitInstantiationDeclaration \<or>
              getTemplateSpecializationKind CD = TSK_ExplicitInstantiationDefinition then []
      else
        let offset = (if isStruct CD then 7 else 6 :: int);
            insertion_point = getLocWithOffset (getBeginLoc CD) offset
        in [unexported_public_interface loc (getNameAsString CD)
              (CreateInsertion insertion_point (export_macro @ '' ''))])"

section \<open>The interface scanner with the ignore option (second visitor of idt.cc)\<close>

text \<open>
  Modelled from the spec: the command-line parser that fills the \<open>ignore\<close>
  option is outside the sources.  The option is declared as a list with
  comma-separated values, and the spec says that entries are accepted both as
  comma-separated values of one flag and as repeated flags: every occurrence of
  the flag is cut at its commas and the pieces are appended in order.
\<close>

primrec split_commas :: "string \<Rightarrow> string list" where
  "split_commas [] = [[]]"
| "split_commas (c # cs) =
     (if c = CHR '','' then [] # split_commas cs
      else (case split_commas cs of
              [] \<Rightarrow> [[c]]
            | piece # pieces \<Rightarrow> (c # piece) # pieces))"

definition ignored_functions_option :: "string list \<Rightarrow> string list" where
  "ignored_functions_option occurrences = concat (map split_commas occurrences)"

text \<open>
  The set is built from the parsed option on first use and kept; it is a
  function of the option's entries.
\<close>

definition get_ignored_functions :: "string list \<Rightarrow> string set" where
  "get_ignored_functions ignored_functions = set ignored_functions"

definition idt2_VisitFunctionDecl ::
  "string \<Rightarrow> string list \<Rightarrow> FunctionDecl \<Rightarrow> diagnostic list" where
  "idt2_VisitFunctionDecl export_macro ignored_functions FD =
     (let loc = location FD;
          annotated_or_later =
            (if hasDLLExportAttr FD \<or> hasDLLImportAttr FD then []
             else if contains (get_ignored_functions ignored_functions)
                       (getNameAsString FD) then []
             else
               let insertion_point =
                     (if getTemplatedKind FD = TK_NonTemplate then getBeginLoc FD
                      else getInnerLocStart FD)
               in [unexported_public_interface loc (getNameAsString FD)
                     (CreateInsertion insertion_point (export_macro @ '' ''))])
      in
      if isInSystemHeader loc then []
      else if isDependentContext FD then []
      else if hasBody FD then []
      else if isa_FriendDecl FD then []
      else if isDeleted FD \<or> isDefaulted FD then []
      else
        (case dyn_cast_CXXMethodDecl FD of
           Some MD \<Rightarrow>
             if getAccess MD = AS_private then
               (if hasDLLExportAttr FD
                then [exported_private_interface loc (getNameAsString FD)]
                else [])
             else if isPure MD then []
             else annotated_or_later
         | None \<Rightarrow> annotated_or_later))"

section \<open>The report-only tool (libtool.cc)\<close>

text \<open>
  This tool prints to standard output and has no fix-its.  \<open>diagnose\<close>
  prints the qualified name and the place; the over-exporting warning is a
  prefix printed before it.
\<close>

datatype printed =
    WARNING_over_exporting
  | diagnose string FullSourceLoc

definition libtool_VisitFunctionDecl :: "FunctionDecl \<Rightarrow> printed list" where
  "libtool_VisitFunctionDecl FD =
     (let loc = location FD in
      if isInSystemHeader loc then []
      else if hasBody FD then []
      else if dyn_cast_CXXMethodDecl FD \<noteq> None then []
      else if hasDLLExportAttr FD \<or> hasDLLImportAttr FD then []
      else if contains kIgnoredFunctions (getNameAsString FD) then []
      else [diagnose (getQualifiedNameAsString FD) loc])"

text \<open>
  The traversal calls the method visitor on member functions only; on a free
  function it is not called and nothing is printed.
\<close>

definition libtool_VisitCXXMethodDecl :: "FunctionDecl \<Rightarrow> printed list" where
  "libtool_VisitCXXMethodDecl FD =
     (case dyn_cast_CXXMethodDecl FD of
        None \<Rightarrow> []
      | Some MD \<Rightarrow>
          let loc = location FD in
          if isInSystemHeader loc then []
          else if isDependentContext FD then []
          else if hasBody FD then []
          else if isDeleted FD \<or> isDefaulted FD then []
          else if hasDLLExportAttr FD \<or> hasDLLImportAttr FD then []
          else
            (if getAccess MD = AS_private \<and> hasDLLExportAttr FD
             then [WARNING_over_exporting, diagnose (getQualifiedNameAsString FD) loc]
             else [])
            @ [diagnose (getQualifiedNameAsString FD) loc])"

section \<open>The tool with fix-its and a method visitor (unnamed part 000)\<close>

text \<open>
  Its two remarks have the texts of the scanner's remarks and are modelled by
  the same constructors.
\<close>

definition libtool_fixit_VisitFunctionDecl ::
  "string \<Rightarrow> FunctionDecl \<Rightarrow> diagnostic list" where
  "libtool_fixit_VisitFunctionDecl export_macro FD =
     (let loc = location FD in
      if isInSystemHeader loc then []
      else if hasBody FD then []
      else if dyn_cast_CXXMethodDecl FD \<noteq> None then []
      else if isa_FriendDecl FD then []
      else if hasDLLExportAttr FD \<or> hasDLLImportAttr FD then []
      else if contains kIgnoredFunctions (getNameAsString FD) then []
      else [unexported_public_interface loc (getNameAsString FD)
              (CreateInsertion (getBeginLoc FD) (export_macro @ '' ''))])"

definition libtool_fixit_VisitCXXMethodDecl ::
  "string \<Rightarrow> FunctionDecl \<Rightarrow> diagnostic list" where
  "libtool_fixit_VisitCXXMethodDecl export_macro FD =
     (case dyn_cast_CXXMethodDecl FD of
        None \<Rightarrow> []
      | Some MD \<Rightarrow>
          let loc = location FD in
          if isInSystemHeader loc then []
          else if isDependentContext FD then []
          else if hasBody FD then []
          else if isa_FriendDecl FD then []
          else if isDeleted FD \<or> isDefaulted FD then []
          else if getAccess MD = AS_private then
            (if hasDLLExportAttr FD
             then [exported_private_interface loc (getNameAsString FD)]
             else [])
          else if hasDLLExportAttr FD \<or> hasDLLImportAttr FD then []
          else [unexported_public_interface loc (getNameAsString FD)
                  (CreateInsertion (getBeginLoc FD) (export_macro @ '' ''))])"

section \<open>Concrete declarations\<close>

text \<open>
  The declarations of the test files, and a few more of the same kind, as the
  visitors meet them.
\<close>

definition at_line :: "string \<Rightarrow> nat \<Rightarrow> nat \<Rightarrow> FullSourceLoc" where
  "at_line file line column =
     \<lparr>getFilename = file, isInSystemHeader = False,
      getExpansionLineNumber = line, getExpansionColumnNumber = column\<rparr>"

text \<open>
  A free function declared without a body, attribute or template header, the
  shape of \<open>void f() noexcept;\<close>.
\<close>

definition function_declaration ::
  "string \<Rightarrow> FullSourceLoc \<Rightarrow> SourceLocation \<Rightarrow> FunctionDecl" where
  "function_declaration name loc begin =
     \<lparr>location = loc, getBeginLoc = begin, getNameAsString = name,
      getQualifiedNameAsString = name,
      hasDLLExportAttr = False, hasDLLImportAttr = False, hasVisibilityAttr = False,
      isDependentContext = False, doesThisDeclarationHaveABody = False,
      hasBody = False, isa_FriendDecl = False, getFriendObjectKind = FOK_None,
      isDeleted = False, isDefaulted = False, dyn_cast_CXXMethodDecl = None,
      getTemplatedKind = TK_NonTemplate, getInnerLocStart = begin\<rparr>"

text \<open>IgnoredFunctions.hh: \<open>void f() noexcept;\<close> and \<open>const char* h(int count);\<close>\<close>

definition decl_f :: FunctionDecl where
  "decl_f = function_declaration ''f'' (at_line ''IgnoredFunctions.hh'' 4 1) 137"

definition decl_h :: FunctionDecl where
  "decl_h = function_declaration ''h'' (at_line ''IgnoredFunctions.hh'' 10 1) 370"

text \<open>
  A function \<open>int g(int x);\<close> declared inside a namespace: its name is
  the bare identifier, its qualified name carries the namespace.
\<close>

definition decl_ns_g :: FunctionDecl where
  "decl_ns_g =
     (function_declaration ''g'' (at_line ''shapes.h'' 5 3) 210)
     \<lparr>getQualifiedNameAsString := ''shapes::g''\<rparr>"

text \<open>KnownBuiltins.hh: the declaration of \<open>_BitScanForward\<close>.\<close>

definition decl_BitScanForward :: FunctionDecl where
  "decl_BitScanForward =
     function_declaration ''_BitScanForward'' (at_line ''KnownBuiltins.hh'' 3 1) 64"

text \<open>
  The template test: \<open>template <> void template_function_inline<char>(char &);\<close>
  begins at the \<open>template\<close> keyword; its inner start is at \<open>void\<close>,
  twelve characters later.
\<close>

definition decl_template_char :: FunctionDecl where
  "decl_template_char =
     (function_declaration ''template_function_inline<char>''
        (at_line ''TemplateFunctions.hh'' 10 1) 500)
     \<lparr>getTemplatedKind := TK_FunctionTemplateSpecialization,
      getInnerLocStart := 512\<rparr>"

text \<open>
  A private member function \<open>void m();\<close> of a class in a header, as
  written, and carrying one of the three attributes.
\<close>

definition decl_private_m :: FunctionDecl where
  "decl_private_m =
     (function_declaration ''m'' (at_line ''widget.h'' 3 3) 40)
     \<lparr>getQualifiedNameAsString := ''widget::m'',
      dyn_cast_CXXMethodDecl := Some \<lparr>getAccess = AS_private, isPure = False\<rparr>\<rparr>"

definition decl_private_m_dllexport :: FunctionDecl where
  "decl_private_m_dllexport = decl_private_m\<lparr>hasDLLExportAttr := True\<rparr>"

definition decl_private_m_dllimport :: FunctionDecl where
  "decl_private_m_dllimport = decl_private_m\<lparr>hasDLLImportAttr := True\<rparr>"

text \<open>An extern variable \<open>extern int counter;\<close> in a system header.\<close>

definition decl_system_counter :: VarDecl where
  "decl_system_counter =
     \<lparr>location = (at_line ''/usr/include/counter.h'' 7 1)\<lparr>isInSystemHeader := True\<rparr>,
      getBeginLoc = 90, getNameAsString = ''counter'',
      getQualifiedNameAsString = ''counter'',
      hasDLLExportAttr = False, hasDLLImportAttr = False, hasVisibilityAttr = False,
      hasExternalStorage = True\<rparr>"

text \<open>
  A top-level \<open>struct point { int x; int y; };\<close> and a top-level
  \<open>class shape { };\<close>, both defined in an included header.
\<close>

definition decl_struct_point :: CXXRecordDecl where
  "decl_struct_point =
     \<lparr>location = at_line ''point.h'' 1 1,
      getBeginLoc = 20, getNameAsString = ''point'',
      getQualifiedNameAsString = ''point'',
      hasDLLExportAttr = False, hasDLLImportAttr = False, hasVisibilityAttr = False,
      isCompleteDefinition = True, parent_isa_RecordDecl = False,
      getTagKind = TTK_Struct, getIncludeLoc_isInvalid = False,
      getTemplateSpecializationKind = TSK_Undeclared\<rparr>"

definition decl_class_shape :: CXXRecordDecl where
  "decl_class_shape =
     decl_struct_point\<lparr>getNameAsString := ''shape'',
       getQualifiedNameAsString := ''shape'', getTagKind := TTK_Class\<rparr>"

text \<open>
  The template test also defines \<open>template_function_inline<int>\<close> with a
  body.
\<close>

definition decl_template_int :: FunctionDecl where
  "decl_template_int =
     (function_declaration ''template_function_inline<int>''
        (at_line ''TemplateFunctions.hh'' 7 1) 350)
     \<lparr>getTemplatedKind := TK_FunctionTemplateSpecialization,
      getInnerLocStart := 362, doesThisDeclarationHaveABody := True, hasBody := True\<rparr>"

text \<open>\<open>void f() noexcept;\<close> carrying a visibility attribute.\<close>

definition decl_f_visibility :: FunctionDecl where
  "decl_f_visibility = decl_f\<lparr>hasVisibilityAttr := True\<rparr>"

text \<open>The extern variable again, in a header of the project.\<close>

definition decl_extern_counter :: VarDecl where
  "decl_extern_counter =
     decl_system_counter\<lparr>location := at_line ''counter.h'' 7 1\<rparr>"

text \<open>An explicit instantiation declaration \<open>extern template class basic<char>;\<close>\<close>

definition decl_extern_template :: ClassTemplateSpecializationDecl where
  "decl_extern_template =
     \<lparr>location = at_line ''basic.h'' 9 1,
      getBeginLoc = 200, getNameAsString = ''basic'',
      getQualifiedNameAsString = ''basic'',
      hasDLLExportAttr = False, hasDLLImportAttr = False, hasVisibilityAttr = False,
      isCompleteDefinition = False, parent_isa_RecordDecl = False,
      getTagKind = TTK_Class, getIncludeLoc_isInvalid = False,
      getTemplateSpecializationKind = TSK_ExplicitInstantiationDeclaration,
      getSpecializedTemplate_isStruct = False, getExternLoc = 200\<rparr>"

text \<open>A forward declaration \<open>struct point;\<close>\<close>

definition decl_struct_point_forward :: CXXRecordDecl where
  "decl_struct_point_forward = decl_struct_point\<lparr>isCompleteDefinition := False\<rparr>"

text \<open>The member function \<open>void m();\<close> in a public section.\<close>

definition decl_public_m :: FunctionDecl where
  "decl_public_m =
     decl_private_m\<lparr>dyn_cast_CXXMethodDecl :=
       Some \<lparr>getAccess = AS_public, isPure = False\<rparr>\<rparr>"

lemmas test_declarations =
  at_line_def function_declaration_def decl_f_def decl_h_def decl_BitScanForward_def
  decl_template_char_def decl_private_m_def decl_private_m_dllexport_def
  decl_private_m_dllimport_def decl_system_counter_def decl_struct_point_def
  decl_class_shape_def decl_template_int_def decl_f_visibility_def
  decl_extern_counter_def decl_extern_template_def decl_struct_point_forward_def
  decl_public_m_def decl_ns_g_def

section \<open>Private member functions\<close>

lemma libtool_fixit_private_method:
  assumes "dyn_cast_CXXMethodDecl FD = Some MD" and "getAccess MD = AS_private"
    and "\<not> isInSystemHeader (location FD)"
    and "\<not> isDependentContext FD"
    and "\<not> hasBody FD"
    and "\<not> isa_FriendDecl FD"
    and "\<not> isDeleted FD" and "\<not> isDefaulted FD"
  shows "libtool_fixit_VisitCXXMethodDecl export_macro FD =
           (if hasDLLExportAttr FD
            then [exported_private_interface (location FD) (getNameAsString FD)]
            else [])"
  using assms by (simp add: libtool_fixit_VisitCXXMethodDecl_def Let_def)

text \<open>
  Claim C1, as amended.  A private member function that passes the earlier
  guards of the scanner (file name, system header, dependent context, body,
  friend, deleted or defaulted) is skipped when classes are annotated, because
  that guard comes first.  When classes are not annotated it is reported as an
  exported private interface if it carries the export attribute, and skipped
  if it carries neither the export nor the visibility attribute.  Nothing
  that a later guard reads (pure virtual, the import attribute, the ignore
  list, the template kind) enters the verdict.
\<close>

theorem private_method_verdict:
  assumes "dyn_cast_CXXMethodDecl FD = Some MD" and "getAccess MD = AS_private"
    and "StringRef_find (getFilename (location FD)) ''/lib/'' = None"
    and "StringRef_find (getFilename (location FD)) ''/tools/'' = None"
    and "StringRef_find (getFilename (location FD)) ''.def'' = None"
    and "\<not> isInSystemHeader (location FD)"
    and "\<not> isDependentContext FD"
    and "\<not> doesThisDeclarationHaveABody FD"
    and "\<not> isa_FriendDecl FD"
    and "getFriendObjectKind FD = FOK_None"
    and "\<not> isDeleted FD" and "\<not> isDefaulted FD"
  shows "(annotateClasses \<longrightarrow>
           idt_VisitFunctionDecl export_macro annotateClasses FD = []) \<and>
         (\<not> annotateClasses \<and> hasDLLExportAttr FD \<longrightarrow>
           idt_VisitFunctionDecl export_macro annotateClasses FD =
             [exported_private_interface (location FD) (getNameAsString FD)]) \<and>
         (\<not> annotateClasses \<and> \<not> hasDLLExportAttr FD \<and> \<not> hasVisibilityAttr FD \<longrightarrow>
           idt_VisitFunctionDecl export_macro annotateClasses FD = [])"
  using assms by (simp add: idt_VisitFunctionDecl_def Let_def)

theorem private_method_verdict_witness:
  "idt_VisitFunctionDecl ''EXPORT'' False decl_private_m_dllexport =
     [exported_private_interface (at_line ''widget.h'' 3 3) ''m''] \<and>
   idt_VisitFunctionDecl ''EXPORT'' False decl_private_m = [] \<and>
   idt_VisitFunctionDecl ''EXPORT'' True decl_private_m = []"
proof -
  have a: "idt_VisitFunctionDecl ''EXPORT'' False decl_private_m_dllexport =
     [exported_private_interface (at_line ''widget.h'' 3 3) ''m'']"
    using private_method_verdict
      [where FD = decl_private_m_dllexport and annotateClasses = False
         and MD = "\<lparr>getAccess = AS_private, isPure = False\<rparr>"
         and export_macro = "''EXPORT''"]
    by (simp add: test_declarations)
  have b: "idt_VisitFunctionDecl ''EXPORT'' False decl_private_m = []"
    using private_method_verdict
      [where FD = decl_private_m and annotateClasses = False
         and MD = "\<lparr>getAccess = AS_private, isPure = False\<rparr>"
         and export_macro = "''EXPORT''"]
    by (simp add: test_declarations)
  have c: "idt_VisitFunctionDecl ''EXPORT'' True decl_private_m = []"
    using private_method_verdict
      [where FD = decl_private_m and annotateClasses = True
         and MD = "\<lparr>getAccess = AS_private, isPure = False\<rparr>"
         and export_macro = "''EXPORT''"]
    by (simp add: test_declarations)
  show ?thesis using a b c by simp
qed

text \<open>
  The claim as stated fails: with class annotation on, a private member
  function carrying the export attribute is skipped, and with class annotation
  off, one carrying only the import attribute is skipped as well.
\<close>

theorem private_export_suppressed:
  "dyn_cast_CXXMethodDecl decl_private_m_dllexport =
     Some \<lparr>getAccess = AS_private, isPure = False\<rparr> \<and>
   hasDLLExportAttr decl_private_m_dllexport \<and>
   idt_VisitFunctionDecl ''EXPORT'' True decl_private_m_dllexport = [] \<and>
   dyn_cast_CXXMethodDecl decl_private_m_dllimport =
     Some \<lparr>getAccess = AS_private, isPure = False\<rparr> \<and>
   hasDLLImportAttr decl_private_m_dllimport \<and>
   idt_VisitFunctionDecl ''EXPORT'' False decl_private_m_dllimport = []"
  by (simp add: idt_VisitFunctionDecl_def test_declarations)

section \<open>System headers\<close>

lemma system_header_function_skipped:
  "isInSystemHeader (location FD) \<Longrightarrow>
   idt_VisitFunctionDecl export_macro annotateClasses FD = []"
  by (simp add: idt_VisitFunctionDecl_def Let_def)

lemma system_header_record_skipped:
  "isInSystemHeader (location CD) \<Longrightarrow>
   idt_VisitCXXRecordDecl export_macro annotateClasses CD = []"
  by (simp add: idt_VisitCXXRecordDecl_def Let_def)

lemma template_specialization_guards_ignore_system_header:
  assumes "StringRef_find (getFilename (location CTSD)) ''/lib/'' = None"
    and "StringRef_find (getFilename (location CTSD)) ''/tools/'' = None"
    and "StringRef_find (getFilename (location CTSD)) ''.def'' = None"
    and "\<not> hasDLLExportAttr CTSD" and "\<not> hasDLLImportAttr CTSD"
    and "\<not> hasVisibilityAttr CTSD"
  shows "idt_VisitClassTemplateSpecializationDecl export_macro CTSD =
           [unexported_public_interface (location CTSD) (getNameAsString CTSD)
              (CreateInsertion (getExternLoc CTSD) (export_macro @ '' ''))]"
  using assms by (simp add: idt_VisitClassTemplateSpecializationDecl_def Let_def)

text \<open>
  Claim C2.  Functions and records in a system header are skipped (the two
  lemmas above), but the variable visitor has no such guard: an unannotated
  extern variable outside the excluded paths is reported with a fix-it although
  it lies in a system header.  The visitor of class template specializations
  has no such guard either.
\<close>

theorem variable_guards_ignore_system_header:
  assumes "StringRef_find (getFilename (location VD)) ''/lib/'' = None"
    and "StringRef_find (getFilename (location VD)) ''/tools/'' = None"
    and "StringRef_find (getFilename (location VD)) ''.def'' = None"
    and "\<not> hasDLLExportAttr VD" and "\<not> hasDLLImportAttr VD" and "\<not> hasVisibilityAttr VD"
    and "hasExternalStorage VD"
    and "isInSystemHeader (location VD)"
  shows "idt_VisitVarDecl export_macro VD =
           [unexported_public_interface (location VD) (getNameAsString VD)
              (CreateInsertion (getBeginLoc VD) (export_macro @ '' ''))]"
  using assms by (simp add: idt_VisitVarDecl_def Let_def)

theorem variable_guards_ignore_system_header_witness:
  "isInSystemHeader (location decl_system_counter) \<and>
   idt_VisitVarDecl ''EXPORT'' decl_system_counter =
     [unexported_public_interface
        \<lparr>getFilename = ''/usr/include/counter.h'', isInSystemHeader = True,
         getExpansionLineNumber = 7, getExpansionColumnNumber = 1\<rparr>
        ''counter'' (CreateInsertion 90 ''EXPORT '')]"
  using variable_guards_ignore_system_header
    [where VD = decl_system_counter and export_macro = "''EXPORT''"]
  by (simp add: test_declarations)

section \<open>Bodies\<close>

lemma body_guard_other_visitors:
  "hasBody FD \<Longrightarrow> idt2_VisitFunctionDecl export_macro ignored_functions FD = []"
  "hasBody FD \<Longrightarrow> libtool_VisitFunctionDecl FD = []"
  "hasBody FD \<Longrightarrow> libtool_VisitCXXMethodDecl FD = []"
  "hasBody FD \<Longrightarrow> libtool_fixit_VisitFunctionDecl export_macro FD = []"
  "hasBody FD \<Longrightarrow> libtool_fixit_VisitCXXMethodDecl export_macro FD = []"
  by (auto simp: idt2_VisitFunctionDecl_def libtool_VisitFunctionDecl_def
      libtool_VisitCXXMethodDecl_def libtool_fixit_VisitFunctionDecl_def
      libtool_fixit_VisitCXXMethodDecl_def Let_def split: option.splits)

text \<open>
  Claim C3, as amended.  A function or member function whose declaration has a
  body is skipped, whatever its other fields and whatever the options.  For a
  record the guard runs the other way: a record that is not a complete
  definition is skipped.
\<close>

theorem body_guard:
  "(doesThisDeclarationHaveABody FD \<longrightarrow>
      idt_VisitFunctionDecl export_macro annotateClasses FD = []) \<and>
   (\<not> isCompleteDefinition CD \<longrightarrow>
      idt_VisitCXXRecordDecl export_macro annotateClasses CD = [])"
  by (simp add: idt_VisitFunctionDecl_def idt_VisitCXXRecordDecl_def Let_def)

theorem body_guard_witness:
  "doesThisDeclarationHaveABody decl_template_int \<and>
   idt_VisitFunctionDecl ''EXPORT'' False decl_template_int = [] \<and>
   idt_VisitCXXRecordDecl ''EXPORT'' True decl_struct_point_forward = []"
proof -
  have a: "doesThisDeclarationHaveABody decl_template_int"
    by (simp add: test_declarations)
  have b: "\<not> isCompleteDefinition decl_struct_point_forward"
    by (simp add: test_declarations)
  show ?thesis
    using a b body_guard
      [where FD = decl_template_int and CD = decl_struct_point_forward
         and export_macro = "''EXPORT''" and annotateClasses = False]
      body_guard
      [where FD = decl_template_int and CD = decl_struct_point_forward
         and export_macro = "''EXPORT''" and annotateClasses = True]
    by simp
qed

text \<open>
  The claim as stated fails for records: a struct defined with its body in an
  included header is reported.
\<close>

theorem record_with_body_flagged:
  "isCompleteDefinition decl_struct_point \<and>
   idt_VisitCXXRecordDecl ''EXPORT'' True decl_struct_point =
     [unexported_public_interface (at_line ''point.h'' 1 1) ''point''
        (CreateInsertion 27 ''EXPORT '')]"
  by (simp add: idt_VisitCXXRecordDecl_def isStruct_def isUnion_def getLocWithOffset_def
      test_declarations)

section \<open>Declarations that are already annotated\<close>

lemma idt_annotated_function_skipped:
  assumes "hasDLLExportAttr FD \<or> hasDLLImportAttr FD \<or> hasVisibilityAttr FD"
    and "\<forall>MD. dyn_cast_CXXMethodDecl FD = Some MD \<longrightarrow> getAccess MD \<noteq> AS_private"
  shows "idt_VisitFunctionDecl export_macro annotateClasses FD = []"
  using assms
  by (cases "dyn_cast_CXXMethodDecl FD") (auto simp: idt_VisitFunctionDecl_def Let_def)

lemma idt_annotated_other_skipped:
  "hasDLLExportAttr CD \<or> hasDLLImportAttr CD \<or> hasVisibilityAttr CD \<Longrightarrow>
     idt_VisitCXXRecordDecl export_macro annotateClasses CD = []"
  "hasDLLExportAttr VD \<or> hasDLLImportAttr VD \<or> hasVisibilityAttr VD \<Longrightarrow>
     idt_VisitVarDecl export_macro VD = []"
  "hasDLLExportAttr CTSD \<or> hasDLLImportAttr CTSD \<or> hasVisibilityAttr CTSD \<Longrightarrow>
     idt_VisitClassTemplateSpecializationDecl export_macro CTSD = []"
  by (auto simp: idt_VisitCXXRecordDecl_def idt_VisitVarDecl_def
      idt_VisitClassTemplateSpecializationDecl_def Let_def)

lemma idt2_dll_annotated_function_skipped:
  assumes "hasDLLExportAttr FD \<or> hasDLLImportAttr FD"
    and "\<forall>MD. dyn_cast_CXXMethodDecl FD = Some MD \<longrightarrow> getAccess MD \<noteq> AS_private"
  shows "idt2_VisitFunctionDecl export_macro ignored_functions FD = []"
  using assms
  by (cases "dyn_cast_CXXMethodDecl FD") (auto simp: idt2_VisitFunctionDecl_def Let_def)

text \<open>
  Claim C4.  The scanner with class annotation skips every declaration that
  carries an export, import or visibility attribute and is not a private
  member function (the lemmas above).  The scanner with the ignore option
  recognises the export and the import attribute only: a free function that
  carries just the visibility attribute, passes the earlier guards and is not
  on the ignore list is reported again, with a fix-it.  So where the export
  macro expands to a visibility attribute, applying the fix-it does not make
  the next run skip the declaration.
\<close>

theorem visibility_attribute_not_recognised:
  assumes "hasVisibilityAttr FD"
    and "\<not> hasDLLExportAttr FD" and "\<not> hasDLLImportAttr FD"
    and "dyn_cast_CXXMethodDecl FD = None"
    and "\<not> isInSystemHeader (location FD)"
    and "\<not> isDependentContext FD"
    and "\<not> hasBody FD"
    and "\<not> isa_FriendDecl FD"
    and "\<not> isDeleted FD" and "\<not> isDefaulted FD"
    and "\<not> contains (get_ignored_functions ignored_functions) (getNameAsString FD)"
  shows "idt2_VisitFunctionDecl export_macro ignored_functions FD =
           [unexported_public_interface (location FD) (getNameAsString FD)
              (CreateInsertion
                 (if getTemplatedKind FD = TK_NonTemplate then getBeginLoc FD
                  else getInnerLocStart FD)
                 (export_macro @ '' ''))]"
  using assms by (simp add: idt2_VisitFunctionDecl_def Let_def)

theorem visibility_attribute_not_recognised_witness:
  "hasVisibilityAttr decl_f_visibility \<and>
   idt2_VisitFunctionDecl ''EXPORT'' [] decl_f_visibility =
     [unexported_public_interface (at_line ''IgnoredFunctions.hh'' 4 1) ''f''
        (CreateInsertion 137 ''EXPORT '')]"
  using visibility_attribute_not_recognised
    [where FD = decl_f_visibility and export_macro = "''EXPORT''"
       and ignored_functions = "[]"]
  by (simp add: test_declarations contains_def get_ignored_functions_def)

section \<open>Ignored names\<close>

text \<open>
  Claim C5.  A free function whose name is on the ignore list is skipped: in
  the scanner with class annotation the list is the fixed set of builtin
  names, in the scanner with the ignore option it is the set built from the
  option.  The witness runs the declarations of the test file, which no other
  guard skips: \<open>f\<close> is reported without the option and skipped with it,
  \<open>g\<close> is skipped inside a namespace too, and \<open>h\<close>, which is
  not on the list, is still reported.
\<close>

theorem ignored_function_skipped:
  assumes "dyn_cast_CXXMethodDecl FD = None"
  shows "(contains kIgnoredFunctions (getNameAsString FD) \<longrightarrow>
            idt_VisitFunctionDecl export_macro annotateClasses FD = []) \<and>
         (contains (get_ignored_functions ignored_functions) (getNameAsString FD) \<longrightarrow>
            idt2_VisitFunctionDecl export_macro ignored_functions FD = [])"
  using assms by (simp add: idt_VisitFunctionDecl_def idt2_VisitFunctionDecl_def Let_def)

theorem ignored_function_skipped_witness:
  "idt_VisitFunctionDecl ''EXPORT'' True decl_BitScanForward = [] \<and>
   idt2_VisitFunctionDecl ''EXPORT'' (ignored_functions_option [''f,g'']) decl_f = [] \<and>
   idt2_VisitFunctionDecl ''EXPORT'' (ignored_functions_option [''f'', ''g'']) decl_f = [] \<and>
   idt2_VisitFunctionDecl ''EXPORT'' (ignored_functions_option [''f,g'']) decl_ns_g = [] \<and>
   idt2_VisitFunctionDecl ''EXPORT'' (ignored_functions_option [''f,g'']) decl_h =
     [unexported_public_interface (at_line ''IgnoredFunctions.hh'' 10 1) ''h''
        (CreateInsertion 370 ''EXPORT '')] \<and>
   idt2_VisitFunctionDecl ''EXPORT'' [] decl_f =
     [unexported_public_interface (at_line ''IgnoredFunctions.hh'' 4 1) ''f''
        (CreateInsertion 137 ''EXPORT '')]"
proof -
  have a: "idt_VisitFunctionDecl ''EXPORT'' True decl_BitScanForward = []"
    using ignored_function_skipped
      [where FD = decl_BitScanForward and export_macro = "''EXPORT''"
         and annotateClasses = True and ignored_functions = "[]"]
    by (simp add: test_declarations contains_def kIgnoredFunctions_def)
  have b: "idt2_VisitFunctionDecl ''EXPORT'' (ignored_functions_option [''f,g'']) decl_f = []"
    using ignored_function_skipped
      [where FD = decl_f and export_macro = "''EXPORT''"
         and annotateClasses = True
         and ignored_functions = "ignored_functions_option [''f,g'']"]
    by (simp add: test_declarations contains_def get_ignored_functions_def
        ignored_functions_option_def)
  have c: "idt2_VisitFunctionDecl ''EXPORT'' (ignored_functions_option [''f'', ''g'']) decl_f = []"
    using ignored_function_skipped
      [where FD = decl_f and export_macro = "''EXPORT''"
         and annotateClasses = True
         and ignored_functions = "ignored_functions_option [''f'', ''g'']"]
    by (simp add: test_declarations contains_def get_ignored_functions_def
        ignored_functions_option_def)
  have g: "idt2_VisitFunctionDecl ''EXPORT'' (ignored_functions_option [''f,g'']) decl_ns_g = []"
    using ignored_function_skipped
      [where FD = decl_ns_g and export_macro = "''EXPORT''"
         and annotateClasses = True
         and ignored_functions = "ignored_functions_option [''f,g'']"]
    by (simp add: test_declarations contains_def get_ignored_functions_def
        ignored_functions_option_def)
  have d: "idt2_VisitFunctionDecl ''EXPORT'' (ignored_functions_option [''f,g'']) decl_h =
     [unexported_public_interface (at_line ''IgnoredFunctions.hh'' 10 1) ''h''
        (CreateInsertion 370 ''EXPORT '')]"
    by (simp add: idt2_VisitFunctionDecl_def test_declarations contains_def
        get_ignored_functions_def ignored_functions_option_def)
  have e: "idt2_VisitFunctionDecl ''EXPORT'' [] decl_f =
     [unexported_public_interface (at_line ''IgnoredFunctions.hh'' 4 1) ''f''
        (CreateInsertion 137 ''EXPORT '')]"
    by (simp add: idt2_VisitFunctionDecl_def test_declarations contains_def
        get_ignored_functions_def)
  show ?thesis using a b c g d e by simp
qed

section \<open>Where the macro is inserted\<close>

lemma idt_function_insertion_point:
  assumes "unexported_public_interface loc name (CreateInsertion ip inserted)
             \<in> set (idt_VisitFunctionDecl export_macro annotateClasses FD) \<union>
               set (idt2_VisitFunctionDecl export_macro ignored_functions FD)"
  shows "ip = (if getTemplatedKind FD = TK_NonTemplate then getBeginLoc FD
               else getInnerLocStart FD)"
  using assms
  by (auto simp: idt_VisitFunctionDecl_def idt2_VisitFunctionDecl_def Let_def
      split: if_splits option.splits)

lemma idt_template_char_after_header:
  "idt_VisitFunctionDecl ''EXPORT'' True decl_template_char =
     [unexported_public_interface (at_line ''TemplateFunctions.hh'' 10 1)
        ''template_function_inline<char>'' (CreateInsertion 512 ''EXPORT '')]"
  by (simp add: idt_VisitFunctionDecl_def contains_def kIgnoredFunctions_def
      test_declarations)

text \<open>
  Claim C6.  Both scanners insert at the begin location of a function that is
  not a template and at the inner start of any other (the lemma above).  The
  tool with fix-its and a method visitor does not look at the template kind:
  every function it reports gets the insertion at its begin location, which
  for an explicit specialization is the \<open>template\<close> keyword.
\<close>

theorem libtool_fixit_inserts_at_begin:
  assumes "unexported_public_interface loc name (CreateInsertion ip inserted)
             \<in> set (libtool_fixit_VisitFunctionDecl export_macro FD)"
  shows "ip = getBeginLoc FD"
  using assms
  by (auto simp: libtool_fixit_VisitFunctionDecl_def Let_def split: if_splits)

theorem libtool_fixit_inserts_at_begin_witness:
  "getTemplatedKind decl_template_char = TK_FunctionTemplateSpecialization \<and>
   getInnerLocStart decl_template_char = 512 \<and>
   libtool_fixit_VisitFunctionDecl ''EXPORT'' decl_template_char =
     [unexported_public_interface (at_line ''TemplateFunctions.hh'' 10 1)
        ''template_function_inline<char>'' (CreateInsertion 500 ''EXPORT '')] \<and>
   (500 :: int) = getBeginLoc decl_template_char"
proof -
  have e: "libtool_fixit_VisitFunctionDecl ''EXPORT'' decl_template_char =
     [unexported_public_interface (at_line ''TemplateFunctions.hh'' 10 1)
        ''template_function_inline<char>'' (CreateInsertion 500 ''EXPORT '')]"
    by (simp add: libtool_fixit_VisitFunctionDecl_def contains_def kIgnoredFunctions_def
        test_declarations)
  then have "unexported_public_interface (at_line ''TemplateFunctions.hh'' 10 1)
        ''template_function_inline<char>'' (CreateInsertion 500 ''EXPORT '')
      \<in> set (libtool_fixit_VisitFunctionDecl ''EXPORT'' decl_template_char)"
    by simp
  from libtool_fixit_inserts_at_begin [OF this]
  have "(500 :: int) = getBeginLoc decl_template_char" .
  then show ?thesis using e by (simp add: test_declarations)
qed

text \<open>
  Claim C7.  A record that is reported gets the insertion at its begin location
  moved by 7 when it is a struct and by 6 otherwise, which is the length of the
  keyword plus one for \<open>struct\<close> and for \<open>class\<close>.  A union is never
  reported, so its clause holds with nothing to check.
\<close>

theorem record_insertion_point:
  assumes "unexported_public_interface loc name (CreateInsertion ip inserted)
             \<in> set (idt_VisitCXXRecordDecl export_macro annotateClasses CD)"
  shows "ip = getLocWithOffset (getBeginLoc CD) (if isStruct CD then 7 else 6) \<and>
         \<not> isUnion CD \<and>
         (getTagKind CD = TTK_Struct \<longrightarrow>
            ip = getBeginLoc CD + (int (length ''struct'') + 1)) \<and>
         (getTagKind CD = TTK_Class \<longrightarrow>
            ip = getBeginLoc CD + (int (length ''class'') + 1)) \<and>
         (getTagKind CD = TTK_Union \<longrightarrow>
            ip = getBeginLoc CD + (int (length ''union'') + 1))"
  using assms
  by (auto simp: idt_VisitCXXRecordDecl_def Let_def isStruct_def isUnion_def
      getLocWithOffset_def split: if_splits)

theorem record_insertion_point_witness:
  "idt_VisitCXXRecordDecl ''EXPORT'' True decl_struct_point =
     [unexported_public_interface (at_line ''point.h'' 1 1) ''point''
        (CreateInsertion 27 ''EXPORT '')] \<and>
   idt_VisitCXXRecordDecl ''EXPORT'' True decl_class_shape =
     [unexported_public_interface (at_line ''point.h'' 1 1) ''shape''
        (CreateInsertion 26 ''EXPORT '')] \<and>
   (27 :: int) = getBeginLoc decl_struct_point + 7 \<and>
   (26 :: int) = getBeginLoc decl_class_shape + 6"
proof -
  have s: "idt_VisitCXXRecordDecl ''EXPORT'' True decl_struct_point =
     [unexported_public_interface (at_line ''point.h'' 1 1) ''point''
        (CreateInsertion 27 ''EXPORT '')]"
    by (simp add: idt_VisitCXXRecordDecl_def test_declarations isStruct_def isUnion_def
        getLocWithOffset_def)
  have c: "idt_VisitCXXRecordDecl ''EXPORT'' True decl_class_shape =
     [unexported_public_interface (at_line ''point.h'' 1 1) ''shape''
        (CreateInsertion 26 ''EXPORT '')]"
    by (simp add: idt_VisitCXXRecordDecl_def test_declarations isStruct_def isUnion_def
        getLocWithOffset_def)
  have "(27 :: int) = getBeginLoc decl_struct_point + 7"
    using s record_insertion_point
      [where CD = decl_struct_point and export_macro = "''EXPORT''"
         and annotateClasses = True and ip = 27 and inserted = "''EXPORT ''"
         and loc = "at_line ''point.h'' 1 1" and name = "''point''"]
    by (simp add: decl_struct_point_def)
  moreover have "(26 :: int) = getBeginLoc decl_class_shape + 6"
    using c record_insertion_point
      [where CD = decl_class_shape and export_macro = "''EXPORT''"
         and annotateClasses = True and ip = 26 and inserted = "''EXPORT ''"
         and loc = "at_line ''point.h'' 1 1" and name = "''shape''"]
    by (simp add: decl_class_shape_def decl_struct_point_def)
  ultimately show ?thesis using s c by simp
qed

section \<open>The inserted text\<close>

lemma idt_function_text:
  "unexported_public_interface loc name (CreateInsertion ip inserted)
     \<in> set (idt_VisitFunctionDecl export_macro annotateClasses FD) \<Longrightarrow>
   inserted = export_macro @ '' ''"
  by (auto simp: idt_VisitFunctionDecl_def Let_def split: if_splits option.splits)

lemma idt_record_text:
  "unexported_public_interface loc name (CreateInsertion ip inserted)
     \<in> set (idt_VisitCXXRecordDecl export_macro annotateClasses CD) \<Longrightarrow>
   inserted = export_macro @ '' ''"
  by (simp add: idt_VisitCXXRecordDecl_def Let_def split: if_splits)

lemma idt_variable_text:
  "unexported_public_interface loc name (CreateInsertion ip inserted)
     \<in> set (idt_VisitVarDecl export_macro VD) \<Longrightarrow>
   inserted = export_macro @ '' ''"
  by (simp add: idt_VisitVarDecl_def Let_def split: if_splits)

lemma idt_template_text:
  "unexported_public_interface loc name (CreateInsertion ip inserted)
     \<in> set (idt_VisitClassTemplateSpecializationDecl export_macro CTSD) \<Longrightarrow>
   inserted = export_macro @ '' ''"
  by (simp add: idt_VisitClassTemplateSpecializationDecl_def Let_def split: if_splits)

lemma idt2_function_text:
  "unexported_public_interface loc name (CreateInsertion ip inserted)
     \<in> set (idt2_VisitFunctionDecl export_macro ignored_functions FD) \<Longrightarrow>
   inserted = export_macro @ '' ''"
  by (auto simp: idt2_VisitFunctionDecl_def Let_def split: if_splits option.splits)

lemma libtool_fixit_function_text:
  "unexported_public_interface loc name (CreateInsertion ip inserted)
     \<in> set (libtool_fixit_VisitFunctionDecl export_macro FD) \<Longrightarrow>
   inserted = export_macro @ '' ''"
  by (simp add: libtool_fixit_VisitFunctionDecl_def Let_def split: if_splits)

lemma libtool_fixit_method_text:
  "unexported_public_interface loc name (CreateInsertion ip inserted)
     \<in> set (libtool_fixit_VisitCXXMethodDecl export_macro FD) \<Longrightarrow>
   inserted = export_macro @ '' ''"
  by (auto simp: libtool_fixit_VisitCXXMethodDecl_def Let_def
      split: if_splits option.splits)

text \<open>
  Claim C8.  Whichever visitor reports an unexported public interface, for a
  function, a record, a variable or a class template specialization, the text
  of its fix-it is the export macro followed by one space.
\<close>

theorem fixit_text_is_macro_and_space:
  assumes "unexported_public_interface loc name (CreateInsertion ip inserted)
             \<in> set (idt_VisitFunctionDecl export_macro annotateClasses FD) \<union>
               set (idt_VisitCXXRecordDecl export_macro annotateClasses CD) \<union>
               set (idt_VisitVarDecl export_macro VD) \<union>
               set (idt_VisitClassTemplateSpecializationDecl export_macro CTSD) \<union>
               set (idt2_VisitFunctionDecl export_macro ignored_functions FD2) \<union>
               set (libtool_fixit_VisitFunctionDecl export_macro FD3) \<union>
               set (libtool_fixit_VisitCXXMethodDecl export_macro FD4)"
  shows "inserted = export_macro @ '' ''"
  using assms
  by (auto dest: idt_function_text idt_record_text idt_variable_text idt_template_text
      idt2_function_text libtool_fixit_function_text libtool_fixit_method_text)

theorem fixit_text_is_macro_and_space_witness:
  "idt_VisitFunctionDecl ''EXPORT'' True decl_f =
     [unexported_public_interface (at_line ''IgnoredFunctions.hh'' 4 1) ''f''
        (CreateInsertion 137 ''EXPORT '')] \<and>
   idt_VisitCXXRecordDecl ''EXPORT'' True decl_struct_point =
     [unexported_public_interface (at_line ''point.h'' 1 1) ''point''
        (CreateInsertion 27 ''EXPORT '')] \<and>
   idt_VisitVarDecl ''EXPORT'' decl_extern_counter =
     [unexported_public_interface (at_line ''counter.h'' 7 1) ''counter''
        (CreateInsertion 90 ''EXPORT '')] \<and>
   idt_VisitClassTemplateSpecializationDecl ''EXPORT'' decl_extern_template =
     [unexported_public_interface (at_line ''basic.h'' 9 1) ''basic''
        (CreateInsertion 200 ''EXPORT '')] \<and>
   ''EXPORT '' = ''EXPORT'' @ '' ''"
proof -
  have f: "idt_VisitFunctionDecl ''EXPORT'' True decl_f =
     [unexported_public_interface (at_line ''IgnoredFunctions.hh'' 4 1) ''f''
        (CreateInsertion 137 ''EXPORT '')]"
    by (simp add: idt_VisitFunctionDecl_def contains_def kIgnoredFunctions_def
        test_declarations)
  have r: "idt_VisitCXXRecordDecl ''EXPORT'' True decl_struct_point =
     [unexported_public_interface (at_line ''point.h'' 1 1) ''point''
        (CreateInsertion 27 ''EXPORT '')]"
    by (simp add: idt_VisitCXXRecordDecl_def isStruct_def isUnion_def getLocWithOffset_def
        test_declarations)
  have v: "idt_VisitVarDecl ''EXPORT'' decl_extern_counter =
     [unexported_public_interface (at_line ''counter.h'' 7 1) ''counter''
        (CreateInsertion 90 ''EXPORT '')]"
    by (simp add: idt_VisitVarDecl_def test_declarations)
  have t: "idt_VisitClassTemplateSpecializationDecl ''EXPORT'' decl_extern_template =
     [unexported_public_interface (at_line ''basic.h'' 9 1) ''basic''
        (CreateInsertion 200 ''EXPORT '')]"
    by (simp add: idt_VisitClassTemplateSpecializationDecl_def test_declarations)
  have "unexported_public_interface (at_line ''IgnoredFunctions.hh'' 4 1) ''f''
          (CreateInsertion 137 ''EXPORT '')
        \<in> set (idt_VisitFunctionDecl ''EXPORT'' True decl_f) \<union>
          set (idt_VisitCXXRecordDecl ''EXPORT'' True decl_struct_point) \<union>
          set (idt_VisitVarDecl ''EXPORT'' decl_extern_counter) \<union>
          set (idt_VisitClassTemplateSpecializationDecl ''EXPORT'' decl_extern_template) \<union>
          set (idt2_VisitFunctionDecl ''EXPORT'' [] decl_f) \<union>
          set (libtool_fixit_VisitFunctionDecl ''EXPORT'' decl_f) \<union>
          set (libtool_fixit_VisitCXXMethodDecl ''EXPORT'' decl_public_m)"
    using f by simp
  from fixit_text_is_macro_and_space [OF this]
  have "''EXPORT '' = ''EXPORT'' @ '' ''" .
  then show ?thesis using f r v t by simp
qed

section \<open>How the ignore list is built\<close>

lemma user_entries_are_ignored:
  "name \<in> set (split_commas occurrence) \<Longrightarrow> occurrence \<in> set occurrences \<Longrightarrow>
   contains (get_ignored_functions (ignored_functions_option occurrences)) name"
  by (auto simp: contains_def get_ignored_functions_def ignored_functions_option_def)

lemma comma_separated_or_repeated:
  "get_ignored_functions (ignored_functions_option [''f,g'']) =
   get_ignored_functions (ignored_functions_option [''f'', ''g'']) \<and>
   get_ignored_functions (ignored_functions_option [''f,g,f'', ''g'']) = {''f'', ''g''}"
  by (auto simp: get_ignored_functions_def ignored_functions_option_def)

text \<open>
  Claim C9.  The scanner with the ignore option builds its list from the
  entries of the option, comma-separated or given with a repeated flag (the
  lemmas above), and from nothing else: the fixed builtin names are not merged
  in.  A free function that passes the other guards and whose name the user
  did not give is not on the list and is reported, also when its name is one
  of the builtin names.  Run without the option, the scanner reports the
  declaration of \<open>_BitScanForward\<close> of the builtin test, which the
  scanner with the fixed list skips.
\<close>

theorem ignore_list_is_user_entries:
  assumes "getNameAsString FD \<notin> set ignored_functions"
    and "dyn_cast_CXXMethodDecl FD = None"
    and "\<not> isInSystemHeader (location FD)"
    and "\<not> isDependentContext FD"
    and "\<not> hasBody FD"
    and "\<not> isa_FriendDecl FD"
    and "\<not> isDeleted FD" and "\<not> isDefaulted FD"
    and "\<not> hasDLLExportAttr FD" and "\<not> hasDLLImportAttr FD"
  shows "\<not> contains (get_ignored_functions ignored_functions) (getNameAsString FD) \<and>
         idt2_VisitFunctionDecl export_macro ignored_functions FD =
           [unexported_public_interface (location FD) (getNameAsString FD)
              (CreateInsertion
                 (if getTemplatedKind FD = TK_NonTemplate then getBeginLoc FD
                  else getInnerLocStart FD)
                 (export_macro @ '' ''))]"
  using assms
  by (simp add: idt2_VisitFunctionDecl_def contains_def get_ignored_functions_def Let_def)

theorem ignore_list_is_user_entries_witness:
  "contains kIgnoredFunctions (getNameAsString decl_BitScanForward) \<and>
   \<not> contains (get_ignored_functions (ignored_functions_option []))
       (getNameAsString decl_BitScanForward) \<and>
   idt2_VisitFunctionDecl ''EXPORT'' (ignored_functions_option []) decl_BitScanForward =
     [unexported_public_interface (at_line ''KnownBuiltins.hh'' 3 1) ''_BitScanForward''
        (CreateInsertion 64 ''EXPORT '')]"
proof -
  have b: "contains kIgnoredFunctions (getNameAsString decl_BitScanForward)"
    by (simp add: contains_def kIgnoredFunctions_def test_declarations)
  show ?thesis
    using b ignore_list_is_user_entries
      [where FD = decl_BitScanForward and export_macro = "''EXPORT''"
         and ignored_functions = "ignored_functions_option []"]
    by (simp add: ignored_functions_option_def test_declarations)
qed

section \<open>The over-exporting warning of the report-only tool\<close>

text \<open>
  Claim C10.  The report-only tool never prints the over-exporting warning.
  Its method visitor returns for every member function that carries the export
  or the import attribute before it tests for a private member with the export
  attribute, so that test is never true; whatever the member function, the
  visitor prints nothing or the one plain line.  The function visitor has no
  such warning at all.
\<close>

theorem over_exporting_warning_never_printed:
  "WARNING_over_exporting \<notin> set (libtool_VisitFunctionDecl FD) \<and>
   WARNING_over_exporting \<notin> set (libtool_VisitCXXMethodDecl FD) \<and>
   (libtool_VisitCXXMethodDecl FD = [] \<or>
    libtool_VisitCXXMethodDecl FD =
      [diagnose (getQualifiedNameAsString FD) (location FD)])"
  by (auto simp: libtool_VisitFunctionDecl_def libtool_VisitCXXMethodDecl_def Let_def
      split: option.splits)

theorem over_exporting_warning_never_printed_witness:
  "WARNING_over_exporting \<notin> set (libtool_VisitCXXMethodDecl decl_private_m_dllexport) \<and>
   libtool_VisitCXXMethodDecl decl_private_m_dllexport = [] \<and>
   libtool_VisitCXXMethodDecl decl_private_m =
     [diagnose ''widget::m'' (at_line ''widget.h'' 3 3)]"
proof -
  have a: "WARNING_over_exporting \<notin> set (libtool_VisitCXXMethodDecl decl_private_m_dllexport)"
    using over_exporting_warning_never_printed [of decl_private_m_dllexport] by simp
  have b: "libtool_VisitCXXMethodDecl decl_private_m_dllexport = []"
    by (simp add: libtool_VisitCXXMethodDecl_def test_declarations)
  have c: "libtool_VisitCXXMethodDecl decl_private_m =
     [diagnose ''widget::m'' (at_line ''widget.h'' 3 3)]"
    by (simp add: libtool_VisitCXXMethodDecl_def test_declarations)
  show ?thesis using a b c by simp
qed

end
